theory Spec2Isabelle
  imports
    Main
    "HOL-Library.Word"
    "HOL-Library.Signed_Division"
    "HOL-Library.AList"
    "HOL-Library.Char_ord"
    "HOL-Library.List_Lexorder"
begin

unbundle bit_operations_syntax

section \<open>libkineto Config (src/libkineto/src/Config.h)\<close>

text \<open>
  A shallow embedding of the class \<open>Config\<close> of libkineto: its data members as a
  record, its inline member functions as HOL functions over that record. A member
  function that the C++ language leaves without a result on some input (signed
  overflow, modulo by zero, an over-long shift, a failed \<open>assert\<close>) returns a
  \<open>fault\<close> there, so every such input is a branch of the model.
\<close>

subsection \<open>Faults\<close>

text \<open>
  \<open>AssertionFailed\<close> is the defined abort of a failing \<open>assert\<close> (message, then
  \<open>abort()\<close>). The other faults are undefined behaviour of C++: the language
  promises neither a value nor an abort.
\<close>

datatype fault =
    AssertionFailed
  | SignedOverflow
  | DivisionByZero
  | ShiftOutOfRange
  | InvalidPointer

fun undefined_behaviour :: "fault \<Rightarrow> bool" where
  "undefined_behaviour AssertionFailed = False"
| "undefined_behaviour SignedOverflow = True"
| "undefined_behaviour DivisionByZero = True"
| "undefined_behaviour ShiftOutOfRange = True"
| "undefined_behaviour InvalidPointer = True"

subsection \<open>Machine integers and std::chrono\<close>

text \<open>
  \<open>int\<close> is a 32-bit and the representation type of every \<open>std::chrono\<close> duration
  used here (\<open>milliseconds::rep\<close>, \<open>seconds::rep\<close>, the clocks' \<open>rep\<close>) a 64-bit
  two's complement integer, as on libstdc++, libc++ and MSVC. A duration is
  represented by its \<open>count()\<close>, a time point by the \<open>count()\<close> of its
  \<open>time_since_epoch()\<close>; \<open>sint\<close> reads the signed value.
\<close>

type_synonym cint = "32 word"
type_synonym rep64 = "64 word"
type_synonym milliseconds = rep64
type_synonym seconds = rep64
type_synonym hrc_time_point = rep64
type_synonym sys_time_point = rep64
type_synonym addr = nat

definition fits64 :: "int \<Rightarrow> bool" where
  "fits64 x = (- (2 ^ 63) \<le> x \<and> x < 2 ^ 63)"

text \<open>
  Arithmetic on the 64-bit signed representation. C++ gives no result when the exact
  result is not representable, when the divisor is zero, and for
  \<open>INT64_MIN % -1\<close>; \<open>%\<close> truncates towards zero (\<open>smod\<close>).
\<close>

definition rep_add :: "rep64 \<Rightarrow> rep64 \<Rightarrow> fault + rep64" where
  "rep_add x y =
     (if fits64 (sint x + sint y) then Inr (word_of_int (sint x + sint y))
      else Inl SignedOverflow)"

definition rep_sub :: "rep64 \<Rightarrow> rep64 \<Rightarrow> fault + rep64" where
  "rep_sub x y =
     (if fits64 (sint x - sint y) then Inr (word_of_int (sint x - sint y))
      else Inl SignedOverflow)"

definition rep_mul :: "rep64 \<Rightarrow> rep64 \<Rightarrow> fault + rep64" where
  "rep_mul x y =
     (if fits64 (sint x * sint y) then Inr (word_of_int (sint x * sint y))
      else Inl SignedOverflow)"

definition rep_mod :: "rep64 \<Rightarrow> rep64 \<Rightarrow> fault + rep64" where
  "rep_mod x y =
     (if y = 0 then Inl DivisionByZero
      else if sint x = - (2 ^ 63) \<and> sint y = - 1 then Inl SignedOverflow
      else Inr (word_of_int (sint x smod sint y)))"

text \<open>
  \<open>std::chrono::high_resolution_clock\<close> counts nanoseconds (libstdc++, libc++), so
  adding a \<open>std::chrono::seconds\<close> to one of its time points first converts the
  seconds to the common type, nanoseconds (\<open>count * 1000000000\<close>), then adds the
  counts.
\<close>

definition hrc_ticks_per_second :: rep64 where
  "hrc_ticks_per_second = 1000000000"

definition time_point_plus_seconds :: "hrc_time_point \<Rightarrow> seconds \<Rightarrow> fault + hrc_time_point" where
  "time_point_plus_seconds tp d =
     (case rep_mul d hrc_ticks_per_second of
        Inl e \<Rightarrow> Inl e
      | Inr ticks \<Rightarrow> rep_add tp ticks)"

subsection \<open>std::set\<close>

text \<open>
  A \<open>std::set<std::string>\<close> is represented by the sequence its iterators visit: the
  elements in strictly increasing order. \<open>set_insert\<close> is \<open>insert(value)\<close>, which
  leaves the container as it is when an equivalent element is present;
  \<open>set_insert_range\<close> is \<open>insert(first, last)\<close>, which inserts each element of the
  range in turn.
\<close>

definition is_std_set :: "'a::linorder list \<Rightarrow> bool" where
  "is_std_set xs = sorted_wrt (<) xs"

fun set_insert :: "'a::linorder \<Rightarrow> 'a list \<Rightarrow> 'a list" where
  "set_insert x [] = [x]"
| "set_insert x (y # ys) =
     (if x < y then x # y # ys
      else if y < x then y # set_insert x ys
      else y # ys)"

definition set_insert_range :: "'a::linorder list \<Rightarrow> 'a list \<Rightarrow> 'a list" where
  "set_insert_range names s = fold set_insert names s"

subsection \<open>The data members\<close>

text \<open>
  The private data members of \<open>Config\<close> in the order of the header. The last field is
  the registry of feature sub-configurations that \<open>Config\<close> inherits from
  \<open>AbstractConfig\<close>: feature name to the address of the owned sub-configuration
  object, with unique names. An Isabelle name cannot end in an underscore: the member
  \<open>samplePeriod_\<close> is the field \<open>samplePeriod_'\<close>, and so on.
\<close>

record Config =
  verboseLogLevel_' :: cint
  verboseLogModules_' :: "string list"
  samplePeriod_' :: milliseconds
  reportPeriod_' :: milliseconds
  samplesPerReport_' :: cint
  eventNames_' :: "string list"
  metricNames_' :: "string list"
  eventProfilerOnDemandDuration_' :: seconds
  eventProfilerOnDemandTimestamp_' :: hrc_time_point
  eventProfilerMaxInstancesPerGpu_' :: cint
  eventLogFile_' :: string
  eventReportPercentiles_' :: "cint list"
  eventProfilerDeviceMask_' :: "8 word"
  multiplexPeriod_' :: milliseconds
  activityProfilerEnabled_' :: bool
  activitiesLogFile_' :: string
  activitiesMaxGpuBufferSize_' :: cint
  activitiesWarmupDuration_' :: seconds
  activitiesOnDemandDuration_' :: milliseconds
  activitiesExternalAPIIterations_' :: cint
  activitiesExternalAPIIterationsTarget_' :: string
  activitiesExternalAPIFilter_' :: "string list"
  activitiesExternalAPINetSizeThreshold_' :: cint
  activitiesExternalAPIGpuOpCountThreshold_' :: cint
  activitiesOnDemandTimestamp_' :: hrc_time_point
  requestTimestamp_' :: sys_time_point
  enableSigUsr2_' :: bool
  featureConfigs_' :: "(string \<times> addr) list"

subsection \<open>Accessors and setters\<close>


definition setSamplePeriod :: "Config \<Rightarrow> milliseconds \<Rightarrow> Config" where
  "setSamplePeriod c period = c\<lparr>samplePeriod_' := period\<rparr>"

definition multiplexPeriod :: "Config \<Rightarrow> milliseconds" where
  "multiplexPeriod c = multiplexPeriod_' c"

definition setMultiplexPeriod :: "Config \<Rightarrow> milliseconds \<Rightarrow> Config" where
  "setMultiplexPeriod c period = c\<lparr>multiplexPeriod_' := period\<rparr>"



definition setSamplesPerReport :: "Config \<Rightarrow> cint \<Rightarrow> Config" where
  "setSamplesPerReport c count = c\<lparr>samplesPerReport_' := count\<rparr>"


definition eventNames :: "Config \<Rightarrow> string list" where
  "eventNames c = eventNames_' c"

definition addEvents :: "Config \<Rightarrow> string list \<Rightarrow> Config" where
  "addEvents c names = c\<lparr>eventNames_' := set_insert_range names (eventNames_' c)\<rparr>"

definition metricNames :: "Config \<Rightarrow> string list" where
  "metricNames c = metricNames_' c"

definition addMetrics :: "Config \<Rightarrow> string list \<Rightarrow> Config" where
  "addMetrics c names = c\<lparr>metricNames_' := set_insert_range names (metricNames_' c)\<rparr>"

definition percentiles :: "Config \<Rightarrow> cint list" where
  "percentiles c = eventReportPercentiles_' c"

definition eventProfilerOnDemandDuration :: "Config \<Rightarrow> seconds" where
  "eventProfilerOnDemandDuration c = eventProfilerOnDemandDuration_' c"

definition setEventProfilerOnDemandDuration :: "Config \<Rightarrow> seconds \<Rightarrow> Config" where
  "setEventProfilerOnDemandDuration c duration = c\<lparr>eventProfilerOnDemandDuration_' := duration\<rparr>"

definition setActivitiesOnDemandDuration :: "Config \<Rightarrow> milliseconds \<Rightarrow> Config" where
  "setActivitiesOnDemandDuration c duration = c\<lparr>activitiesOnDemandDuration_' := duration\<rparr>"

definition requestTimestamp :: "Config \<Rightarrow> sys_time_point" where
  "requestTimestamp c = requestTimestamp_' c"

text \<open>\<open>requestTimestamp_.time_since_epoch().count() > 0\<close>, a signed comparison.\<close>

definition hasRequestTimestamp :: "Config \<Rightarrow> bool" where
  "hasRequestTimestamp c = (0 < sint (requestTimestamp_' c))"

definition eventProfilerOnDemandStartTime :: "Config \<Rightarrow> hrc_time_point" where
  "eventProfilerOnDemandStartTime c = eventProfilerOnDemandTimestamp_' c"

definition eventProfilerOnDemandEndTime :: "Config \<Rightarrow> fault + hrc_time_point" where
  "eventProfilerOnDemandEndTime c =
     time_point_plus_seconds (eventProfilerOnDemandTimestamp_' c) (eventProfilerOnDemandDuration_' c)"

text \<open>
  \<open>0 != (eventProfilerDeviceMask_ & (1 << dev))\<close>: the \<open>uint8_t\<close> mask is promoted to
  \<open>int\<close>, and the \<open>int\<close> 1 is shifted by the \<open>uint32_t\<close> \<open>dev\<close>. A shift by the
  width of \<open>int\<close> or more has no defined result; a shift by 31 gives the sign bit
  (C++14 and later).
\<close>

definition eventProfilerEnabledForDevice :: "Config \<Rightarrow> 32 word \<Rightarrow> fault + bool" where
  "eventProfilerEnabledForDevice c dev =
     (if 32 \<le> unat dev then Inl ShiftOutOfRange
      else Inr (0 \<noteq> ((ucast (eventProfilerDeviceMask_' c) :: cint) AND push_bit (unat dev) 1)))"

subsection \<open>alignUp\<close>

text \<open>\<open>duration += alignment; return duration - (duration % alignment);\<close>\<close>

definition alignUp :: "milliseconds \<Rightarrow> milliseconds \<Rightarrow> fault + milliseconds" where
  "alignUp duration alignment =
     (case rep_add duration alignment of
        Inl e \<Rightarrow> Inl e
      | Inr duration' \<Rightarrow>
          (case rep_mod duration' alignment of
             Inl e \<Rightarrow> Inl e
           | Inr r \<Rightarrow> rep_sub duration' r))"

subsection \<open>cloneDerived\<close>

text \<open>
  \<open>assert(false); return nullptr;\<close>. The macro \<open>assert\<close> of \<open>assert.h\<close> expands to
  nothing when the translation unit is compiled with \<open>NDEBUG\<close> defined, and aborts
  otherwise. The parameter \<open>ndebug\<close> says whether \<open>NDEBUG\<close> is defined; the null
  pointer is \<open>None\<close>.
\<close>

definition cloneDerived :: "bool \<Rightarrow> Config \<Rightarrow> fault + addr option" where
  "cloneDerived ndebug c = (if ndebug then Inr None else Inl AssertionFailed)"

subsection \<open>The object store and clone\<close>

text \<open>
  Objects live in a store: \<open>Config\<close> objects and feature sub-configuration objects by
  address, and the next address \<open>new\<close> hands out. The state of a feature
  sub-configuration is a value of the type parameter \<open>'f\<close>: the registry never looks
  inside it.
\<close>

record 'f heap =
  configs :: "addr \<rightharpoonup> Config"
  features :: "addr \<rightharpoonup> 'f"
  next_addr :: addr

text \<open>
  Modelled from the spec: the virtual \<open>cloneDerived\<close> of a feature sub-configuration
  class (the feature classes are not in Config.h). Per the spec every concrete leaf type
  overrides it "to return a type-correct copy of itself": a new object with the state of
  the cloned one.
\<close>

definition feature_cloneDerived :: "addr \<Rightarrow> 'f heap \<Rightarrow> fault + (addr \<times> 'f heap)" where
  "feature_cloneDerived p h =
     (case features h p of
        None \<Rightarrow> Inl InvalidPointer
      | Some s \<Rightarrow>
          Inr (next_addr h,
               h\<lparr>features := (features h)(next_addr h \<mapsto> s), next_addr := Suc (next_addr h)\<rparr>))"

text \<open>
  Modelled from the spec: \<open>AbstractConfig::cloneFeaturesInto\<close> (AbstractConfig.h is not
  among the sources). Per the spec it "copies every currently-registered feature
  sub-config into a target instance, deep-cloning each one polymorphically through its
  own virtual clone": for each registered pair of the source, in order, the target's
  entry for that name becomes the address of a fresh clone. The first argument is the
  registry of the source object, the second the address of the target.
\<close>

fun cloneFeaturesInto :: "(string \<times> addr) list \<Rightarrow> addr \<Rightarrow> 'f heap \<Rightarrow> fault + 'f heap" where
  "cloneFeaturesInto [] cfg h = Inr h"
| "cloneFeaturesInto ((name, p) # rest) cfg h =
     (case feature_cloneDerived p h of
        Inl e \<Rightarrow> Inl e
      | Inr (q, h1) \<Rightarrow>
          (case configs h1 cfg of
             None \<Rightarrow> Inl InvalidPointer
           | Some t \<Rightarrow>
               cloneFeaturesInto rest cfg
                 (h1\<lparr>configs := (configs h1)
                    (cfg \<mapsto> t\<lparr>featureConfigs_' := AList.update name q (featureConfigs_' t)\<rparr>)\<rparr>)))"

text \<open>
  \<open>auto cfg = std::unique_ptr<Config>(new Config(*this)); cloneFeaturesInto(*cfg);
  return cfg;\<close>. The defaulted copy constructor copies every data member, the
  registry of feature addresses among them; \<open>cloneFeaturesInto\<close> then replaces each
  address by that of a clone.
\<close>

definition clone :: "addr \<Rightarrow> 'f heap \<Rightarrow> fault + (addr \<times> 'f heap)" where
  "clone this_addr h =
     (case configs h this_addr of
        None \<Rightarrow> Inl InvalidPointer
      | Some c \<Rightarrow>
          (let cfg = next_addr h;
               h1 = h\<lparr>configs := (configs h)(cfg \<mapsto> c), next_addr := Suc cfg\<rparr>
           in case cloneFeaturesInto (featureConfigs_' c) cfg h1 of
                Inl e \<Rightarrow> Inl e
              | Inr h2 \<Rightarrow> Inr (cfg, h2)))"

text \<open>
  Every allocated address lies below \<open>next_addr\<close>, so \<open>new\<close> never hands out an address
  in use.
\<close>

definition heap_ok :: "'f heap \<Rightarrow> bool" where
  "heap_ok h = (\<forall>a. (a \<in> dom (configs h) \<or> a \<in> dom (features h)) \<longrightarrow> a < next_addr h)"

text \<open>The addresses of the feature sub-configurations a \<open>Config\<close> owns.\<close>

definition owned_features :: "Config \<Rightarrow> addr set" where
  "owned_features c = snd ` set (featureConfigs_' c)"

text \<open>
  What can be observed of the \<open>Config\<close> object at an address: its data members, and
  for each registered feature its name and the state of its sub-configuration object
  (the addresses themselves are left out).
\<close>

definition config_view :: "'f heap \<Rightarrow> addr \<Rightarrow> (Config \<times> (string \<times> 'f option) list) option" where
  "config_view h a =
     (case configs h a of
        None \<Rightarrow> None
      | Some c \<Rightarrow>
          Some (c\<lparr>featureConfigs_' := []\<rparr>,
                map (\<lambda>(name, p). (name, features h p)) (featureConfigs_' c)))"

text \<open>A write through a pointer: to a \<open>Config\<close> object, to a feature sub-configuration.\<close>

definition store_config :: "addr \<Rightarrow> Config \<Rightarrow> 'f heap \<Rightarrow> 'f heap" where
  "store_config a c h = h\<lparr>configs := (configs h)(a \<mapsto> c)\<rparr>"

definition store_feature :: "addr \<Rightarrow> 'f \<Rightarrow> 'f heap \<Rightarrow> 'f heap" where
  "store_feature a s h = h\<lparr>features := (features h)(a \<mapsto> s)\<rparr>"

subsection \<open>Construction\<close>

text \<open>
  Modelled from the spec: the constructor \<open>Config::Config()\<close> is defined in Config.cpp,
  which is not among the sources. Per the spec "a Config is constructed with documented
  defaults", so the default member initialisers of the header stay in force:
  \<open>eventReportPercentiles_ = {5, 25, 50, 75, 95}\<close> and
  \<open>eventProfilerDeviceMask_ = ~0\<close> (the \<open>int\<close> \<open>~0\<close> converted to \<open>uint8_t\<close>). The
  argument gives the values the constructor assigns to the members that have no
  initialiser in the header.
\<close>

definition Config_init :: "Config \<Rightarrow> Config" where
  "Config_init members =
     members\<lparr>eventReportPercentiles_' := [5, 25, 50, 75, 95],
             eventProfilerDeviceMask_' := ucast (NOT (0 :: cint))\<rparr>"

text \<open>The inline mutators of the header, and a sequence of calls of them.\<close>

datatype mutator =
    SetSamplePeriod milliseconds
  | SetMultiplexPeriod milliseconds
  | SetSamplesPerReport cint
  | AddEvents "string list"
  | AddMetrics "string list"
  | SetEventProfilerOnDemandDuration seconds
  | SetActivitiesOnDemandDuration milliseconds

fun apply_mutator :: "mutator \<Rightarrow> Config \<Rightarrow> Config" where
  "apply_mutator (SetSamplePeriod p) c = setSamplePeriod c p"
| "apply_mutator (SetMultiplexPeriod p) c = setMultiplexPeriod c p"
| "apply_mutator (SetSamplesPerReport n) c = setSamplesPerReport c n"
| "apply_mutator (AddEvents names) c = addEvents c names"
| "apply_mutator (AddMetrics names) c = addMetrics c names"
| "apply_mutator (SetEventProfilerOnDemandDuration d) c = setEventProfilerOnDemandDuration c d"
| "apply_mutator (SetActivitiesOnDemandDuration d) c = setActivitiesOnDemandDuration c d"

definition apply_mutators :: "mutator list \<Rightarrow> Config \<Rightarrow> Config" where
  "apply_mutators ms c = fold apply_mutator ms c"

subsection \<open>The range of samplesPerReport\<close>


subsection \<open>A configuration for evaluation\<close>

definition sample_config :: Config where
  "sample_config =
     \<lparr> verboseLogLevel_' = - 1,
       verboseLogModules_' = [],
       samplePeriod_' = 100,
       reportPeriod_' = 1000,
       samplesPerReport_' = 1,
       eventNames_' = [''active_cycles'', ''inst_executed''],
       metricNames_' = [''ipc''],
       eventProfilerOnDemandDuration_' = 30,
       eventProfilerOnDemandTimestamp_' = 5000000000,
       eventProfilerMaxInstancesPerGpu_' = 1,
       eventLogFile_' = ''events.log'',
       eventReportPercentiles_' = [5, 25, 50, 75, 95],
       eventProfilerDeviceMask_' = 255,
       multiplexPeriod_' = 1000,
       activityProfilerEnabled_' = True,
       activitiesLogFile_' = ''trace.json'',
       activitiesMaxGpuBufferSize_' = 128,
       activitiesWarmupDuration_' = 5,
       activitiesOnDemandDuration_' = 500,
       activitiesExternalAPIIterations_' = 3,
       activitiesExternalAPIIterationsTarget_' = [],
       activitiesExternalAPIFilter_' = [],
       activitiesExternalAPINetSizeThreshold_' = 0,
       activitiesExternalAPIGpuOpCountThreshold_' = 0,
       activitiesOnDemandTimestamp_' = 0,
       requestTimestamp_' = 0,
       enableSigUsr2_' = False,
       featureConfigs_' = [(''alpha'', 1), (''beta'', 2)] \<rparr>"

definition sample_heap :: "nat heap" where
  "sample_heap =
     \<lparr> configs = [0 \<mapsto> sample_config],
       features = [1 \<mapsto> 10, 2 \<mapsto> 20],
       next_addr = 3 \<rparr>"

section \<open>Properties\<close>

subsection \<open>Signed 64-bit arithmetic\<close>

lemma sint_word_of_int_fits64: "fits64 x \<Longrightarrow> sint (word_of_int x :: rep64) = x"
  unfolding fits64_def by (simp add: sint_sbintrunc' signed_take_bit_int_eq_self)

lemma fits64_sint: "fits64 (sint (x :: rep64))"
  unfolding fits64_def using sint_ge [of x] sint_lt [of x] by simp

lemma smod_abs_less:
  fixes x a :: int
  assumes "0 < a"
  shows "\<bar>x smod a\<bar> < a"
  using assms by (simp add: signed_modulo_int_def abs_mult abs_sgn_eq)

lemma smod_abs_le:
  fixes x a :: int
  assumes "0 < a"
  shows "\<bar>x smod a\<bar> \<le> \<bar>x\<bar>"
proof -
  have "\<bar>x\<bar> mod a \<le> \<bar>x\<bar>"
    by (rule zmod_le_nonneg_dividend) simp
  with assms show ?thesis
    by (simp add: signed_modulo_int_def abs_mult abs_sgn_eq)
qed

lemma smod_nonneg:
  fixes x a :: int
  assumes "0 < a" and "0 \<le> x"
  shows "0 \<le> x smod a"
  using assms by (simp add: signed_modulo_int_def sgn_if)

lemma smod_nonpos:
  fixes x a :: int
  assumes "0 < a" and "x \<le> 0"
  shows "x smod a \<le> 0"
  using assms by (simp add: signed_modulo_int_def sgn_if)

lemma smod_dvd_diff:
  fixes x a :: int
  shows "a dvd (x - x smod a)"
  by (simp add: minus_smod_eq_sdiv_mult)

lemma smod_eq_0_iff_dvd:
  fixes x a :: int
  shows "x smod a = 0 \<longleftrightarrow> a dvd x"
proof -
  have "x smod a = 0 \<longleftrightarrow> \<bar>x\<bar> mod \<bar>a\<bar> = 0"
    by (cases "x = 0") (simp_all add: signed_modulo_int_def sgn_if)
  also have "\<dots> \<longleftrightarrow> \<bar>a\<bar> dvd \<bar>x\<bar>"
    by (simp only: mod_eq_0_iff_dvd)
  also have "\<dots> \<longleftrightarrow> a dvd x"
    by simp
  finally show ?thesis .
qed

subsection \<open>alignUp\<close>

text \<open>
  C1 (as amended). For every duration \<open>d\<close> and every alignment \<open>a > 0\<close> whose sum
  \<open>d + a\<close> is representable in the 64-bit signed \<open>rep\<close>, \<open>alignUp(d, a)\<close> returns a
  value \<open>r\<close> with \<open>r % a == 0\<close>, \<open>r > d - a\<close> and \<open>r >= d\<close>, and when \<open>d\<close> is an exact
  multiple of \<open>a\<close> the result is the next boundary \<open>d + a\<close>. The comparisons are
  between the signed values.
\<close>

theorem alignUp_next_multiple:
  fixes d a :: milliseconds
  assumes pos: "0 < sint a" and fit: "sint d + sint a < 2 ^ 63"
  shows "\<exists>r. alignUp d a = Inr r
           \<and> sint r smod sint a = 0
           \<and> sint d - sint a < sint r
           \<and> sint d \<le> sint r
           \<and> (sint d smod sint a = 0 \<longrightarrow> sint r = sint d + sint a)"
proof -
  define x where "x = sint d + sint a"
  define m where "m = x smod sint a"
  have dlo: "- (2 ^ 63) \<le> sint d" using sint_ge [of d] by simp
  have ahi: "sint a < 2 ^ 63" using sint_lt [of a] by simp
  have fx: "fits64 x"
    using pos fit dlo by (simp add: fits64_def x_def)
  have m_lt: "\<bar>m\<bar> < sint a" unfolding m_def by (rule smod_abs_less [OF pos])
  have m_le: "\<bar>m\<bar> \<le> \<bar>x\<bar>" unfolding m_def by (rule smod_abs_le [OF pos])
  have m_sign: "(0 \<le> x \<longrightarrow> 0 \<le> m) \<and> (x \<le> 0 \<longrightarrow> m \<le> 0)"
    unfolding m_def using smod_nonneg [OF pos, of x] smod_nonpos [OF pos, of x] by blast
  have fm: "fits64 m"
    using m_lt ahi unfolding fits64_def by arith
  have fr: "fits64 (x - m)"
    using fx m_le m_sign unfolding fits64_def by arith
  have a0: "a \<noteq> 0" using pos by auto
  have am1: "sint a \<noteq> - 1" using pos by simp
  have add: "rep_add d a = Inr (word_of_int x)"
    using fx by (simp add: rep_add_def x_def)
  have sx: "sint (word_of_int x :: rep64) = x"
    by (rule sint_word_of_int_fits64 [OF fx])
  have md: "rep_mod (word_of_int x) a = Inr (word_of_int m)"
    using a0 am1 by (simp add: rep_mod_def sx m_def)
  have sm: "sint (word_of_int m :: rep64) = m"
    by (rule sint_word_of_int_fits64 [OF fm])
  have sb: "rep_sub (word_of_int x) (word_of_int m) = Inr (word_of_int (x - m))"
    using fr by (simp add: rep_sub_def sx sm)
  have res: "alignUp d a = Inr (word_of_int (x - m))"
    by (simp add: alignUp_def add md sb)
  have sr: "sint (word_of_int (x - m) :: rep64) = x - m"
    by (rule sint_word_of_int_fits64 [OF fr])
  have p1: "(x - m) smod sint a = 0"
    unfolding smod_eq_0_iff_dvd m_def by (rule smod_dvd_diff)
  have p2: "sint d - sint a < x - m" using m_lt pos by (simp add: x_def)
  have p3: "sint d \<le> x - m" using m_lt by (simp add: x_def)
  have p4: "sint d smod sint a = 0 \<longrightarrow> x - m = sint d + sint a"
  proof
    assume "sint d smod sint a = 0"
    then have "sint a dvd sint d" by (simp add: smod_eq_0_iff_dvd)
    then have "sint a dvd x" by (simp add: x_def)
    then have "m = 0" by (simp add: m_def smod_eq_0_iff_dvd)
    then show "x - m = sint d + sint a" by (simp add: x_def)
  qed
  show ?thesis
    using res sr p1 p2 p3 p4 by simp
qed

text \<open>The theorem at \<open>d = 10\<close>, \<open>a = 5\<close>: an exact multiple advances to 15.\<close>

theorem alignUp_next_multiple_witness:
  "0 < sint (5 :: milliseconds) \<and> sint (10 :: milliseconds) + sint (5 :: milliseconds) < 2 ^ 63
   \<and> (\<exists>r. alignUp 10 5 = Inr r \<and> sint r smod sint (5 :: milliseconds) = 0
          \<and> sint (10 :: milliseconds) - sint (5 :: milliseconds) < sint r
          \<and> sint (10 :: milliseconds) \<le> sint r
          \<and> sint r = sint (10 :: milliseconds) + sint (5 :: milliseconds))"
proof -
  have pos: "0 < sint (5 :: milliseconds)" by simp
  have fit: "sint (10 :: milliseconds) + sint (5 :: milliseconds) < 2 ^ 63" by simp
  have mult: "sint (10 :: milliseconds) smod sint (5 :: milliseconds) = 0"
    by (simp add: signed_modulo_int_def)
  from alignUp_next_multiple [OF pos fit] mult pos fit show ?thesis
    by blast
qed

text \<open>
  The claim as stated, for every duration, fails at the largest duration
  \<open>d = 9223372036854775807\<close> with \<open>a = 1\<close>: \<open>duration += alignment\<close> overflows the
  signed representation, and \<open>alignUp\<close> returns no value.
\<close>

theorem alignUp_overflow_counterexample:
  "0 < sint (1 :: milliseconds) \<and> alignUp 9223372036854775807 1 = Inl SignedOverflow"
  by (simp add: alignUp_def rep_add_def fits64_def)

lemma alignUp_examples:
  "alignUp 10 5 = Inr 15" "alignUp 12 5 = Inr 15" "alignUp 0 5 = Inr 5"
  "alignUp (- 7) 3 = Inr (- 3)" "alignUp (- 6) 3 = Inr (- 3)"
  by (simp_all add: alignUp_def rep_add_def rep_mod_def rep_sub_def fits64_def
      signed_modulo_int_def)

text \<open>
  C2 (as amended). \<open>alignUp\<close> does not check its alignment: for every duration \<open>d\<close>,
  \<open>alignUp(d, 0)\<close> adds zero and then evaluates \<open>duration % alignment\<close> with a zero
  divisor, which is undefined behaviour and not a defined abort or error.
\<close>

theorem alignUp_zero_alignment:
  "alignUp d 0 = Inl DivisionByZero \<and> undefined_behaviour DivisionByZero"
  by (simp add: alignUp_def rep_add_def rep_mod_def fits64_sint)

text \<open>
  The claim as stated fails at \<open>d = 7\<close>: the outcome of \<open>alignUp(7, 0)\<close> is the modulo
  by zero, not the failed assertion of a defined abort.
\<close>

theorem alignUp_zero_counterexample:
  "alignUp 7 0 \<noteq> Inl AssertionFailed \<and> alignUp 7 0 = Inl DivisionByZero"
  by (simp add: alignUp_def rep_add_def rep_mod_def fits64_def)

subsection \<open>cloneDerived\<close>

text \<open>
  C4 (as amended). With assertions enabled (\<open>NDEBUG\<close> not defined),
  \<open>Config::cloneDerived()\<close> fails \<open>assert(false)\<close> and aborts, for every \<open>Config\<close>;
  with \<open>NDEBUG\<close> defined the assertion is compiled out and the call returns the null
  pointer.
\<close>

theorem cloneDerived_outcome:
  "cloneDerived False c = Inl AssertionFailed \<and> \<not> undefined_behaviour AssertionFailed
   \<and> cloneDerived True c = Inr None"
  by (simp add: cloneDerived_def)

text \<open>
  The claim as stated, that the call never returns a null instance, fails in a build
  with \<open>NDEBUG\<close>.
\<close>

theorem cloneDerived_ndebug_counterexample:
  "cloneDerived True sample_config = Inr None"
  by (simp add: cloneDerived_def)

subsection \<open>hasRequestTimestamp\<close>

text \<open>
  C10. \<open>hasRequestTimestamp()\<close> is true exactly when the count of the stored request
  timestamp since the clock's epoch is strictly positive; a timestamp at the epoch or
  before it is reported as absent.
\<close>

theorem hasRequestTimestamp_iff_positive:
  "(hasRequestTimestamp c \<longleftrightarrow> 0 < sint (requestTimestamp c))
   \<and> (\<not> hasRequestTimestamp c \<longleftrightarrow> sint (requestTimestamp c) \<le> 0)
   \<and> \<not> hasRequestTimestamp (c\<lparr>requestTimestamp_' := 0\<rparr>)
   \<and> \<not> hasRequestTimestamp (c\<lparr>requestTimestamp_' := - 1\<rparr>)
   \<and> hasRequestTimestamp (c\<lparr>requestTimestamp_' := 1\<rparr>)"
  by (auto simp add: hasRequestTimestamp_def requestTimestamp_def)

subsection \<open>samplesPerReport\<close>



subsection \<open>The event on-demand window\<close>

lemma sint_hrc_ticks_per_second: "sint hrc_ticks_per_second = 1000000000"
  by (simp add: hrc_ticks_per_second_def)

lemma time_point_plus_seconds_value:
  assumes "fits64 (sint d * 1000000000)" and "fits64 (sint tp + sint d * 1000000000)"
  shows "\<exists>e. time_point_plus_seconds tp d = Inr e \<and> sint e = sint tp + sint d * 1000000000"
proof -
  have m: "rep_mul d hrc_ticks_per_second = Inr (word_of_int (sint d * 1000000000))"
    unfolding rep_mul_def sint_hrc_ticks_per_second using assms(1) by (simp only: if_True)
  have sm: "sint (word_of_int (sint d * 1000000000) :: rep64) = sint d * 1000000000"
    by (rule sint_word_of_int_fits64 [OF assms(1)])
  have a: "rep_add tp (word_of_int (sint d * 1000000000))
      = Inr (word_of_int (sint tp + sint d * 1000000000))"
    unfolding rep_add_def sm using assms(2) by (simp only: if_True)
  have sa: "sint (word_of_int (sint tp + sint d * 1000000000) :: rep64)
      = sint tp + sint d * 1000000000"
    by (rule sint_word_of_int_fits64 [OF assms(2)])
  show ?thesis
    unfolding time_point_plus_seconds_def m using a sa by (simp only: sum.case) blast
qed

text \<open>
  C6 (as amended). For every \<open>Config\<close> whose on-demand duration, converted to clock
  ticks, and whose start time plus that duration are both representable in the signed
  64-bit \<open>rep\<close>, \<open>eventProfilerOnDemandEndTime()\<close> returns
  \<open>eventProfilerOnDemandStartTime()\<close> plus \<open>eventProfilerOnDemandDuration()\<close>, and a
  time \<open>t\<close> lies between the start time (included) and the end time (excluded) exactly
  when \<open>start <= t < start + duration\<close>.
\<close>

theorem eventProfilerOnDemandEndTime_start_plus_duration:
  assumes "fits64 (sint (eventProfilerOnDemandDuration c) * 1000000000)"
    and "fits64 (sint (eventProfilerOnDemandStartTime c)
                 + sint (eventProfilerOnDemandDuration c) * 1000000000)"
  shows "\<exists>e. eventProfilerOnDemandEndTime c = Inr e
           \<and> sint e = sint (eventProfilerOnDemandStartTime c)
                        + sint (eventProfilerOnDemandDuration c) * 1000000000
           \<and> (\<forall>t. (eventProfilerOnDemandStartTime c \<le>s t \<and> t <s e)
                  \<longleftrightarrow> (sint (eventProfilerOnDemandStartTime c) \<le> sint t
                       \<and> sint t < sint (eventProfilerOnDemandStartTime c)
                                    + sint (eventProfilerOnDemandDuration c) * 1000000000))"
proof -
  have eq: "eventProfilerOnDemandEndTime c
     = time_point_plus_seconds (eventProfilerOnDemandStartTime c) (eventProfilerOnDemandDuration c)"
    by (simp add: eventProfilerOnDemandEndTime_def eventProfilerOnDemandStartTime_def
        eventProfilerOnDemandDuration_def)
  from time_point_plus_seconds_value [OF assms]
  obtain e where e: "time_point_plus_seconds (eventProfilerOnDemandStartTime c)
        (eventProfilerOnDemandDuration c) = Inr e"
    and v: "sint e = sint (eventProfilerOnDemandStartTime c)
                        + sint (eventProfilerOnDemandDuration c) * 1000000000"
    by blast
  show ?thesis
    using e v by (auto simp add: eq word_sle_eq word_sless_alt)
qed

text \<open>
  The theorem for a request at 5 s with a duration of 30 s: the end time is 35 s, the
  request is active 29 s after the start and not active 31 s after it.
\<close>

theorem eventProfilerOnDemandEndTime_start_plus_duration_witness:
  "fits64 (sint (eventProfilerOnDemandDuration sample_config) * 1000000000)
   \<and> fits64 (sint (eventProfilerOnDemandStartTime sample_config)
              + sint (eventProfilerOnDemandDuration sample_config) * 1000000000)
   \<and> eventProfilerOnDemandEndTime sample_config = Inr 35000000000
   \<and> (eventProfilerOnDemandStartTime sample_config \<le>s 34000000000
        \<and> (34000000000 :: hrc_time_point) <s 35000000000)
   \<and> \<not> (36000000000 :: hrc_time_point) <s 35000000000"
proof -
  have d: "eventProfilerOnDemandDuration sample_config = 30"
    by (simp add: eventProfilerOnDemandDuration_def sample_config_def)
  have s: "eventProfilerOnDemandStartTime sample_config = 5000000000"
    by (simp add: eventProfilerOnDemandStartTime_def sample_config_def)
  have f1: "fits64 (sint (eventProfilerOnDemandDuration sample_config) * 1000000000)"
    by (simp add: d fits64_def)
  have f2: "fits64 (sint (eventProfilerOnDemandStartTime sample_config)
              + sint (eventProfilerOnDemandDuration sample_config) * 1000000000)"
    by (simp add: d s fits64_def)
  from eventProfilerOnDemandEndTime_start_plus_duration [OF f1 f2]
  obtain e where e: "eventProfilerOnDemandEndTime sample_config = Inr e"
    and w: "\<forall>t. (eventProfilerOnDemandStartTime sample_config \<le>s t \<and> t <s e)
                    \<longleftrightarrow> (sint (eventProfilerOnDemandStartTime sample_config) \<le> sint t
                         \<and> sint t < sint (eventProfilerOnDemandStartTime sample_config)
                                      + sint (eventProfilerOnDemandDuration sample_config) * 1000000000)"
    by blast
  have ev: "e = 35000000000"
    using e by (simp add: eventProfilerOnDemandEndTime_def sample_config_def
        time_point_plus_seconds_def rep_mul_def rep_add_def hrc_ticks_per_second_def fits64_def)
  have a: "eventProfilerOnDemandStartTime sample_config \<le>s 34000000000
        \<and> (34000000000 :: hrc_time_point) <s e"
    using w [rule_format, of 34000000000] by (simp add: d s)
  have b: "\<not> (36000000000 :: hrc_time_point) <s e"
    using w [rule_format, of 36000000000] by (simp add: d s)
  show ?thesis using f1 f2 e a b unfolding ev by simp
qed

text \<open>
  The claim as stated, for every \<open>Config\<close>, fails for a request at the clock's epoch
  with a duration of 9223372037 s, set through \<open>setEventProfilerOnDemandDuration\<close>:
  the conversion of the duration to nanoseconds overflows the signed representation,
  and \<open>eventProfilerOnDemandEndTime()\<close> has no value equal to start + duration.
\<close>

theorem eventProfilerOnDemandEndTime_overflow_counterexample:
  "eventProfilerOnDemandEndTime
     (setEventProfilerOnDemandDuration
        (sample_config\<lparr>eventProfilerOnDemandTimestamp_' := 0\<rparr>) 9223372037)
   = Inl SignedOverflow"
  by (simp add: eventProfilerOnDemandEndTime_def setEventProfilerOnDemandDuration_def
      time_point_plus_seconds_def rep_mul_def hrc_ticks_per_second_def fits64_def)


subsection \<open>addEvents and addMetrics\<close>

lemma set_set_insert: "set (set_insert x xs) = insert x (set xs)"
  by (induction xs) auto

lemma set_set_insert_range: "set (set_insert_range ns xs) = set xs \<union> set ns"
  unfolding set_insert_range_def
  by (induction ns arbitrary: xs) (auto simp add: set_set_insert)

lemma is_std_set_set_insert: "is_std_set xs \<Longrightarrow> is_std_set (set_insert x xs)"
  unfolding is_std_set_def
  by (induction xs) (auto simp add: set_set_insert)

lemma is_std_set_set_insert_range: "is_std_set xs \<Longrightarrow> is_std_set (set_insert_range ns xs)"
  unfolding set_insert_range_def
  by (induction ns arbitrary: xs) (simp_all add: is_std_set_set_insert)

lemma set_insert_present: "is_std_set xs \<Longrightarrow> x \<in> set xs \<Longrightarrow> set_insert x xs = xs"
  unfolding is_std_set_def
  by (induction xs) auto

lemma set_insert_range_present:
  "is_std_set xs \<Longrightarrow> set ns \<subseteq> set xs \<Longrightarrow> set_insert_range ns xs = xs"
  unfolding set_insert_range_def
  by (induction ns) (simp_all add: set_insert_present)

lemma set_insert_range_idem:
  assumes "is_std_set xs"
  shows "set_insert_range ns (set_insert_range ns xs) = set_insert_range ns xs"
  by (rule set_insert_range_present)
    (simp_all add: is_std_set_set_insert_range assms set_set_insert_range)

text \<open>
  C7. \<open>addEvents\<close> and \<open>addMetrics\<close> have union semantics: for every existing name set
  and every added list of names \<open>N\<close>, the elements of the resulting set are those of
  the existing set together with those of \<open>N\<close> (so no existing name is removed), the
  result is again a set in increasing order, and adding \<open>N\<close> a second time changes
  nothing. The hypotheses say that the two members are \<open>std::set\<close>s.
\<close>

theorem addEvents_addMetrics_union:
  assumes "is_std_set (eventNames c)" and "is_std_set (metricNames c)"
  shows "set (eventNames (addEvents c N)) = set (eventNames c) \<union> set N
       \<and> is_std_set (eventNames (addEvents c N))
       \<and> addEvents (addEvents c N) N = addEvents c N
       \<and> set (metricNames (addMetrics c N)) = set (metricNames c) \<union> set N
       \<and> is_std_set (metricNames (addMetrics c N))
       \<and> addMetrics (addMetrics c N) N = addMetrics c N"
  using assms
  by (simp add: addEvents_def addMetrics_def eventNames_def metricNames_def
      set_set_insert_range is_std_set_set_insert_range set_insert_range_idem)

theorem addEvents_addMetrics_union_witness:
  "is_std_set (eventNames sample_config) \<and> is_std_set (metricNames sample_config)
   \<and> eventNames (addEvents sample_config [''sm_efficiency'', ''active_cycles''])
       = [''active_cycles'', ''inst_executed'', ''sm_efficiency'']
   \<and> addEvents (addEvents sample_config [''sm_efficiency'', ''active_cycles''])
         [''sm_efficiency'', ''active_cycles'']
       = addEvents sample_config [''sm_efficiency'', ''active_cycles'']
   \<and> set (metricNames (addMetrics sample_config [''ipc'', ''dram_util'']))
       = {''ipc'', ''dram_util''}"
proof -
  have e: "is_std_set (eventNames sample_config)"
    by (simp add: is_std_set_def eventNames_def sample_config_def)
  have m: "is_std_set (metricNames sample_config)"
    by (simp add: is_std_set_def metricNames_def sample_config_def)
  have v: "eventNames (addEvents sample_config [''sm_efficiency'', ''active_cycles''])
       = [''active_cycles'', ''inst_executed'', ''sm_efficiency'']"
    by (simp add: eventNames_def addEvents_def sample_config_def set_insert_range_def)
  have s: "set (metricNames sample_config) = {''ipc''}"
    by (simp add: metricNames_def sample_config_def)
  from addEvents_addMetrics_union [OF e m, of "[''sm_efficiency'', ''active_cycles'']"]
    addEvents_addMetrics_union [OF e m, of "[''ipc'', ''dram_util'']"] e m v s
  show ?thesis by auto
qed

subsection \<open>Defaults and the device mask\<close>

lemma ucast_mask_and_high_bit:
  fixes m :: "8 word"
  assumes "8 \<le> n"
  shows "(ucast m :: cint) AND 2 ^ n = 0"
proof (rule bit_eqI)
  fix k
  assume "possible_bit TYPE(cint) k"
  show "bit ((ucast m :: cint) AND 2 ^ n) k \<longleftrightarrow> bit (0 :: cint) k"
    using assms by (auto simp add: bit_simps dest: bit_imp_le_length)
qed

lemma default_mask_value: "(ucast (NOT (0 :: cint)) :: 8 word) = - 1"
  by (rule bit_eqI) (auto simp add: bit_simps)

lemma full_mask_and_low_bit:
  assumes "n < 8"
  shows "(ucast (- 1 :: 8 word) :: cint) AND 2 ^ n \<noteq> 0"
proof -
  have "bit ((ucast (- 1 :: 8 word) :: cint) AND 2 ^ n) n"
    using assms by (simp add: bit_simps)
  then show ?thesis by auto
qed

lemma Config_init_mask: "eventProfilerDeviceMask_' (Config_init m) = - 1"
  unfolding Config_init_def using default_mask_value by simp

lemma apply_mutator_frame:
  "eventReportPercentiles_' (apply_mutator mu c) = eventReportPercentiles_' c
   \<and> eventProfilerDeviceMask_' (apply_mutator mu c) = eventProfilerDeviceMask_' c"
  by (cases mu)
    (simp_all add: setSamplePeriod_def setMultiplexPeriod_def setSamplesPerReport_def
      addEvents_def addMetrics_def setEventProfilerOnDemandDuration_def
      setActivitiesOnDemandDuration_def)

lemma apply_mutators_frame:
  "eventReportPercentiles_' (apply_mutators ms c) = eventReportPercentiles_' c
   \<and> eventProfilerDeviceMask_' (apply_mutators ms c) = eventProfilerDeviceMask_' c"
  unfolding apply_mutators_def
  by (induction ms arbitrary: c) (simp_all add: apply_mutator_frame)

text \<open>
  C8. A freshly constructed \<open>Config\<close> has the defaults of the header:
  \<open>percentiles()\<close> is \<open>{5, 25, 50, 75, 95}\<close>, also after any sequence of calls of the
  header's mutators (none of them sets the percentiles), and the device mask has every
  bit set, so \<open>eventProfilerEnabledForDevice(dev)\<close> is true for each of the device
  indices 0 to 7 that the 8-bit mask supports.
\<close>

theorem Config_init_defaults:
  "percentiles (Config_init m) = [5, 25, 50, 75, 95]
   \<and> percentiles (apply_mutators ms (Config_init m)) = [5, 25, 50, 75, 95]
   \<and> (unat dev < 8 \<longrightarrow>
        eventProfilerEnabledForDevice (Config_init m) dev = Inr True
        \<and> eventProfilerEnabledForDevice (apply_mutators ms (Config_init m)) dev = Inr True)"
proof -
  have p: "percentiles (Config_init m) = [5, 25, 50, 75, 95]"
    by (simp add: percentiles_def Config_init_def)
  have q: "percentiles (apply_mutators ms (Config_init m)) = percentiles (Config_init m)"
    by (simp add: percentiles_def apply_mutators_frame)
  have k: "eventProfilerDeviceMask_' (apply_mutators ms (Config_init m)) = - 1"
    by (simp add: apply_mutators_frame Config_init_mask)
  have d: "unat dev < 8 \<Longrightarrow> eventProfilerEnabledForDevice (Config_init m) dev = Inr True"
    using full_mask_and_low_bit [of "unat dev"]
    by (simp add: eventProfilerEnabledForDevice_def Config_init_mask)
  have d': "unat dev < 8 \<Longrightarrow>
      eventProfilerEnabledForDevice (apply_mutators ms (Config_init m)) dev = Inr True"
    using full_mask_and_low_bit [of "unat dev"]
    by (simp add: eventProfilerEnabledForDevice_def k)
  show ?thesis using p q d d' by simp
qed

theorem Config_init_defaults_witness:
  "unat (7 :: 32 word) < 8
   \<and> eventProfilerEnabledForDevice (Config_init sample_config) 7 = Inr True
   \<and> percentiles (apply_mutators [SetSamplesPerReport 4, AddEvents [''l2_hits'']]
        (Config_init sample_config)) = [5, 25, 50, 75, 95]"
  using Config_init_defaults
    [of sample_config "[SetSamplesPerReport 4, AddEvents [''l2_hits'']]" 7]
  by simp

text \<open>
  C9. The device mask holds 8 bits: for every \<open>Config\<close> and every device index \<open>dev\<close>
  with \<open>8 <= dev <= 31\<close>, \<open>eventProfilerEnabledForDevice(dev)\<close> returns false, whatever
  the mask is.
\<close>

theorem eventProfilerEnabledForDevice_above_mask:
  assumes "8 \<le> unat dev" and "unat dev \<le> 31"
  shows "eventProfilerEnabledForDevice c dev = Inr False"
  using assms by (simp add: eventProfilerEnabledForDevice_def ucast_mask_and_high_bit)

theorem eventProfilerEnabledForDevice_above_mask_witness:
  "8 \<le> unat (8 :: 32 word) \<and> unat (8 :: 32 word) \<le> 31
   \<and> eventProfilerEnabledForDevice sample_config 8 = Inr False
   \<and> eventProfilerEnabledForDevice (Config_init sample_config) 31 = Inr False"
  using eventProfilerEnabledForDevice_above_mask [of 8 sample_config]
    eventProfilerEnabledForDevice_above_mask [of 31 "Config_init sample_config"]
  by simp

lemma eventProfilerEnabledForDevice_examples:
  "eventProfilerEnabledForDevice sample_config 0 = Inr True"
  "eventProfilerEnabledForDevice sample_config 7 = Inr True"
  "eventProfilerEnabledForDevice sample_config 32 = Inl ShiftOutOfRange"
  by (simp_all add: eventProfilerEnabledForDevice_def sample_config_def)

subsection \<open>clone\<close>

lemma update_in_place:
  "name \<notin> fst ` set xs \<Longrightarrow>
   AList.update name q (xs @ (name, p) # ys) = (xs @ [(name, q)]) @ ys"
  by (induction xs) auto

lemma cloneFeaturesInto_result:
  assumes "heap_ok h"
    and "configs h cfg = Some t"
    and "featureConfigs_' t = done' @ rest"
    and "distinct (map fst (done' @ rest))"
    and "snd ` set rest \<subseteq> dom (features h)"
  shows "\<exists>h' rest'. cloneFeaturesInto rest cfg h = Inr h'
      \<and> heap_ok h'
      \<and> configs h' = (configs h)(cfg \<mapsto> t\<lparr>featureConfigs_' := done' @ rest'\<rparr>)
      \<and> (\<forall>a. a \<in> dom (features h) \<longrightarrow> features h' a = features h a)
      \<and> next_addr h \<le> next_addr h'
      \<and> list_all2 (\<lambda>(n, p) (n', q). n' = n \<and> features h' q = features h p
                       \<and> next_addr h \<le> q \<and> q < next_addr h') rest rest'"
  using assms
proof (induction rest arbitrary: h done' t)
  case Nil
  then show ?case by (cases t) (auto simp add: fun_upd_idem)
next
  case (Cons np rs)
  obtain name p where np: "np = (name, p)" by (cases np)
  define q where "q = next_addr h"
  from Cons.prems(5) obtain s where s: "features h p = Some s"
    by (auto simp add: np)
  define h1 where "h1 = h\<lparr>features := (features h)(q \<mapsto> s), next_addr := Suc q\<rparr>"
  define t2 where "t2 = t\<lparr>featureConfigs_' := (done' @ [(name, q)]) @ rs\<rparr>"
  define h2 where "h2 = h1\<lparr>configs := (configs h1)(cfg \<mapsto> t2)\<rparr>"
  have fc: "feature_cloneDerived p h = Inr (q, h1)"
    by (simp add: feature_cloneDerived_def s q_def h1_def)
  have c1: "configs h1 cfg = Some t" by (simp add: h1_def Cons.prems(2))
  have fresh: "name \<notin> fst ` set done'"
    using Cons.prems(4) by (auto simp add: np)
  have upd: "AList.update name q (featureConfigs_' t) = (done' @ [(name, q)]) @ rs"
    unfolding Cons.prems(3) np by (rule update_in_place [OF fresh])
  have step: "cloneFeaturesInto (np # rs) cfg h = cloneFeaturesInto rs cfg h2"
    by (simp add: np fc c1 upd h2_def t2_def)
  have qfree: "q \<notin> dom (features h)" "q \<notin> dom (configs h)"
    using Cons.prems(1) by (auto simp add: heap_ok_def q_def)
  have ok2: "heap_ok h2"
    using Cons.prems(1,2) unfolding heap_ok_def h2_def h1_def q_def
    by (auto simp add: less_Suc_eq)
  have tg2: "configs h2 cfg = Some t2" by (simp add: h2_def)
  have rg2: "featureConfigs_' t2 = (done' @ [(name, q)]) @ rs" by (simp add: t2_def)
  have ds2: "distinct (map fst ((done' @ [(name, q)]) @ rs))"
    using Cons.prems(4) by (simp add: np)
  have lv2: "snd ` set rs \<subseteq> dom (features h2)"
    using Cons.prems(5) by (auto simp add: h2_def h1_def)
  from Cons.IH [OF ok2 tg2 rg2 ds2 lv2]
  obtain h' rs' where r: "cloneFeaturesInto rs cfg h2 = Inr h'"
    and ok': "heap_ok h'"
    and cf': "configs h' = (configs h2)(cfg \<mapsto> t2\<lparr>featureConfigs_' := (done' @ [(name, q)]) @ rs'\<rparr>)"
    and fr': "\<forall>a. a \<in> dom (features h2) \<longrightarrow> features h' a = features h2 a"
    and nx': "next_addr h2 \<le> next_addr h'"
    and la': "list_all2 (\<lambda>(n, p) (n', q). n' = n \<and> features h' q = features h2 p
                       \<and> next_addr h2 \<le> q \<and> q < next_addr h') rs rs'"
    by blast
  have f2: "features h2 = (features h)(q \<mapsto> s)" "next_addr h2 = Suc q" "configs h2 = (configs h)(cfg \<mapsto> t2)"
    by (simp_all add: h2_def h1_def)
  have cfg_eq: "configs h' = (configs h)(cfg \<mapsto> t\<lparr>featureConfigs_' := done' @ ((name, q) # rs')\<rparr>)"
    unfolding cf' f2 by (simp add: t2_def)
  have frame: "\<forall>a. a \<in> dom (features h) \<longrightarrow> features h' a = features h a"
    using fr' qfree(1) unfolding f2 by auto
  have nxt: "next_addr h \<le> next_addr h'"
    using nx' unfolding f2 q_def by simp
  have hd: "features h' q = features h p \<and> next_addr h \<le> q \<and> q < next_addr h'"
    using fr' nx' unfolding f2 by (simp add: s q_def)
  have tl: "list_all2 (\<lambda>(n, p) (n', q). n' = n \<and> features h' q = features h p
                       \<and> next_addr h \<le> q \<and> q < next_addr h') rs rs'"
  proof (rule list.rel_mono_strong [OF la'])
    fix x y
    assume xin: "x \<in> set rs" and "y \<in> set rs'"
      and R: "(case x of (n, p) \<Rightarrow> \<lambda>(n', q). n' = n \<and> features h' q = features h2 p
                       \<and> next_addr h2 \<le> q \<and> q < next_addr h') y"
    obtain n pp where x: "x = (n, pp)" by (cases x)
    obtain n' qq where y: "y = (n', qq)" by (cases y)
    from xin Cons.prems(5) have "pp \<in> dom (features h)" by (auto simp add: x)
    with qfree(1) have "features h2 pp = features h pp" unfolding f2 by auto
    with R show "(case x of (n, p) \<Rightarrow> \<lambda>(n', q). n' = n \<and> features h' q = features h p
                       \<and> next_addr h \<le> q \<and> q < next_addr h') y"
      unfolding f2 x y q_def by simp
  qed
  have final: "cloneFeaturesInto (np # rs) cfg h = Inr h'"
    using step r by simp
  have la: "list_all2 (\<lambda>(n, p) (n', q). n' = n \<and> features h' q = features h p
                       \<and> next_addr h \<le> q \<and> q < next_addr h') (np # rs) ((name, q) # rs')"
    using hd tl by (simp add: np)
  show ?case
    by (intro exI [of _ h'] exI [of _ "(name, q) # rs'"] conjI)
      (fact final ok' cfg_eq frame nxt la)+
qed

lemma clones_view:
  "list_all2 (\<lambda>(n, p) (n', q). n' = n \<and> f' q = f p \<and> lo \<le> q \<and> q < hi) xs ys \<Longrightarrow>
   map (\<lambda>(n, q). (n, f' q)) ys = map (\<lambda>(n, p). (n, f p)) xs
   \<and> map fst ys = map fst xs
   \<and> (\<forall>q \<in> snd ` set ys. lo \<le> (q :: addr))"
  by (induction rule: list_all2_induct) auto

lemma sample_clone:
  "clone 0 sample_heap =
     Inr (3, \<lparr> configs = [0 \<mapsto> sample_config,
                           3 \<mapsto> sample_config\<lparr>featureConfigs_' := [(''alpha'', 4), (''beta'', 5)]\<rparr>],
               features = [1 \<mapsto> 10, 2 \<mapsto> 20, 4 \<mapsto> 10, 5 \<mapsto> 20],
               next_addr = 6 \<rparr>)"
  by (simp add: clone_def sample_heap_def sample_config_def feature_cloneDerived_def Let_def)

text \<open>
  C5. For a \<open>Config\<close> object with any number of feature sub-configurations (in a
  well-formed store: allocated addresses below \<open>next_addr\<close>, unique feature names,
  every registered address that of a live sub-configuration), \<open>clone()\<close> returns a new
  object that is a deep copy: it shows the same data members and the same feature
  states as the source, it and its sub-configurations are fresh objects that share no
  address with the source or its sub-configurations, the source is unchanged, and a
  write to the clone or to any of its sub-configurations leaves what the source shows
  unchanged.
\<close>

theorem clone_deep_copy:
  assumes ok: "heap_ok h"
    and src: "configs h this_addr = Some c"
    and dist: "distinct (map fst (featureConfigs_' c))"
    and live: "owned_features c \<subseteq> dom (features h)"
  shows "\<exists>cfg h' c'. clone this_addr h = Inr (cfg, h')
      \<and> heap_ok h'
      \<and> configs h' cfg = Some c'
      \<and> cfg \<notin> dom (configs h) \<and> cfg \<noteq> this_addr
      \<and> owned_features c' \<inter> dom (features h) = {}
      \<and> owned_features c' \<inter> owned_features c = {}
      \<and> map fst (featureConfigs_' c') = map fst (featureConfigs_' c)
      \<and> config_view h' cfg = config_view h this_addr
      \<and> config_view h' this_addr = config_view h this_addr
      \<and> (\<forall>v. config_view (store_config cfg v h') this_addr = config_view h this_addr)
      \<and> (\<forall>q \<in> owned_features c'. \<forall>s.
            config_view (store_feature q s h') this_addr = config_view h this_addr)"
proof -
  define cfg where "cfg = next_addr h"
  define h1 where "h1 = h\<lparr>configs := (configs h)(cfg \<mapsto> c), next_addr := Suc cfg\<rparr>"
  have ok1: "heap_ok h1"
    using ok unfolding heap_ok_def h1_def cfg_def by (auto simp add: less_Suc_eq)
  have tg1: "configs h1 cfg = Some c" by (simp add: h1_def)
  have rg1: "featureConfigs_' c = [] @ featureConfigs_' c" by simp
  have ds1: "distinct (map fst ([] @ featureConfigs_' c))" using dist by simp
  have lv1: "snd ` set (featureConfigs_' c) \<subseteq> dom (features h1)"
    using live by (simp add: owned_features_def h1_def)
  from cloneFeaturesInto_result [OF ok1 tg1 rg1 ds1 lv1]
  obtain h' rest' where r: "cloneFeaturesInto (featureConfigs_' c) cfg h1 = Inr h'"
    and ok': "heap_ok h'"
    and cf': "configs h' = (configs h1)(cfg \<mapsto> c\<lparr>featureConfigs_' := [] @ rest'\<rparr>)"
    and fr': "\<forall>a. a \<in> dom (features h1) \<longrightarrow> features h' a = features h1 a"
    and la': "list_all2 (\<lambda>(n, p) (n', q). n' = n \<and> features h' q = features h1 p
                       \<and> next_addr h1 \<le> q \<and> q < next_addr h') (featureConfigs_' c) rest'"
    by blast
  define c' where "c' = c\<lparr>featureConfigs_' := rest'\<rparr>"
  have f1: "features h1 = features h" "next_addr h1 = Suc cfg" by (simp_all add: h1_def)
  from clones_view [OF la']
  have vw: "map (\<lambda>(n, q). (n, features h' q)) rest'
        = map (\<lambda>(n, p). (n, features h p)) (featureConfigs_' c)"
    and nm: "map fst rest' = map fst (featureConfigs_' c)"
    and ab: "\<forall>q \<in> snd ` set rest'. Suc cfg \<le> q"
    unfolding f1 by blast+
  have cfg_new: "cfg \<notin> dom (configs h)"
    using ok by (auto simp add: heap_ok_def cfg_def)
  have cfg_ne: "cfg \<noteq> this_addr"
    using cfg_new src by auto
  have cfs: "configs h' = (configs h)(cfg \<mapsto> c')"
    unfolding cf' by (simp add: h1_def c'_def)
  have res: "clone this_addr h = Inr (cfg, h')"
    using r by (simp add: clone_def src Let_def cfg_def h1_def)
  have at_cfg: "configs h' cfg = Some c'" by (simp add: cfs)
  have at_src: "configs h' this_addr = Some c" using cfg_ne by (simp add: cfs src)
  have below: "\<forall>a \<in> dom (features h). a < cfg"
    using ok by (auto simp add: heap_ok_def cfg_def)
  have own': "owned_features c' = snd ` set rest'"
    by (simp add: owned_features_def c'_def)
  have disj1: "owned_features c' \<inter> dom (features h) = {}"
  proof -
    have "q \<notin> dom (features h)" if a: "q \<in> snd ` set rest'" for q
    proof
      assume b: "q \<in> dom (features h)"
      from ab a have "Suc cfg \<le> q" by blast
      moreover from below b have "q < cfg" by blast
      ultimately show False by simp
    qed
    then show ?thesis unfolding own' by blast
  qed
  have disj2: "owned_features c' \<inter> owned_features c = {}"
    using disj1 live by blast
  have names: "map fst (featureConfigs_' c') = map fst (featureConfigs_' c)"
    by (simp add: c'_def nm)
  have same: "\<And>p. p \<in> owned_features c \<Longrightarrow> features h' p = features h p"
    using fr' live unfolding f1 by blast
  have mem: "\<And>n p. (n, p) \<in> set (featureConfigs_' c) \<Longrightarrow> p \<in> owned_features c"
    unfolding owned_features_def by force
  have src_map: "map (\<lambda>(n, p). (n, features h' p)) (featureConfigs_' c)
        = map (\<lambda>(n, p). (n, features h p)) (featureConfigs_' c)"
    using same mem by auto
  have view_clone: "config_view h' cfg = config_view h this_addr"
    by (simp add: config_view_def at_cfg src c'_def vw)
  have view_src: "config_view h' this_addr = config_view h this_addr"
    by (simp add: config_view_def at_src src src_map)
  have w1: "\<forall>v. config_view (store_config cfg v h') this_addr = config_view h this_addr"
    using cfg_ne by (simp add: config_view_def store_config_def at_src src src_map)
  have w2: "\<forall>q \<in> owned_features c'. \<forall>s.
      config_view (store_feature q s h') this_addr = config_view h this_addr"
  proof (intro ballI allI)
    fix q s
    assume q: "q \<in> owned_features c'"
    with disj2 have nq: "q \<notin> owned_features c" by blast
    have "map (\<lambda>(n, p). (n, ((features h')(q \<mapsto> s)) p)) (featureConfigs_' c)
        = map (\<lambda>(n, p). (n, features h p)) (featureConfigs_' c)"
      using same mem nq by auto
    then show "config_view (store_feature q s h') this_addr = config_view h this_addr"
      by (simp add: config_view_def store_feature_def at_src src)
  qed
  show ?thesis
    by (intro exI [of _ cfg] exI [of _ h'] exI [of _ c'] conjI)
      (fact res ok' at_cfg cfg_new cfg_ne disj1 disj2 names view_clone view_src w1 w2)+
qed

text \<open>
  The theorem for a \<open>Config\<close> at address 0 with the sub-configurations alpha and beta:
  the clone is the object at address 3 with clones of the two at 4 and 5.
\<close>

theorem clone_deep_copy_witness:
  "heap_ok sample_heap \<and> configs sample_heap 0 = Some sample_config
   \<and> distinct (map fst (featureConfigs_' sample_config))
   \<and> owned_features sample_config \<subseteq> dom (features sample_heap)
   \<and> (\<exists>h'. clone 0 sample_heap = Inr (3, h')
         \<and> config_view h' 3 = config_view sample_heap 0
         \<and> config_view (store_config 3 (setSamplesPerReport sample_config 7) h') 0
             = config_view sample_heap 0
         \<and> config_view (store_feature 4 99 h') 0 = config_view sample_heap 0)"
proof -
  have ok: "heap_ok sample_heap"
    by (auto simp add: heap_ok_def sample_heap_def split: if_splits)
  have src: "configs sample_heap 0 = Some sample_config"
    by (simp add: sample_heap_def)
  have dist: "distinct (map fst (featureConfigs_' sample_config))"
    by (simp add: sample_config_def)
  have live: "owned_features sample_config \<subseteq> dom (features sample_heap)"
    by (simp add: owned_features_def sample_config_def sample_heap_def)
  from clone_deep_copy [OF ok src dist live]
  obtain cfg h' c' where r: "clone 0 sample_heap = Inr (cfg, h')"
    and at: "configs h' cfg = Some c'"
    and v: "config_view h' cfg = config_view sample_heap 0"
    and w1: "\<forall>v. config_view (store_config cfg v h') 0 = config_view sample_heap 0"
    and w2: "\<forall>q \<in> owned_features c'. \<forall>s.
        config_view (store_feature q s h') 0 = config_view sample_heap 0"
    by blast
  from r have cfg: "cfg = 3"
    and h': "h' = \<lparr> configs = [0 \<mapsto> sample_config,
                           3 \<mapsto> sample_config\<lparr>featureConfigs_' := [(''alpha'', 4), (''beta'', 5)]\<rparr>],
               features = [1 \<mapsto> 10, 2 \<mapsto> 20, 4 \<mapsto> 10, 5 \<mapsto> 20],
               next_addr = 6 \<rparr>"
    by (simp_all add: sample_clone)
  from at have "c' = sample_config\<lparr>featureConfigs_' := [(''alpha'', 4), (''beta'', 5)]\<rparr>"
    unfolding cfg h' by simp
  then have "4 \<in> owned_features c'"
    by (simp add: owned_features_def)
  with w2 have w2': "config_view (store_feature 4 99 h') 0 = config_view sample_heap 0"
    by blast
  from w1 have w1': "config_view (store_config 3 (setSamplesPerReport sample_config 7) h') 0
      = config_view sample_heap 0"
    unfolding cfg by blast
  show ?thesis
    using ok src dist live r v w1' w2' unfolding cfg by blast
qed

lemma sample_clone_write:
  "\<exists>h'. clone 0 sample_heap = Inr (3, h')
      \<and> config_view (store_feature 4 99 h') 3 \<noteq> config_view h' 3
      \<and> config_view (store_feature 4 99 h') 0 = config_view h' 0"
  by (simp add: sample_clone config_view_def store_feature_def sample_config_def)

end
